theory Spec2Isabelle
  imports Main "HOL-Library.Word" "HOL-Library.Sublist"
begin

section \<open>Persistent configuration store\<close>

text \<open>
  The firmware keeps the network name and password as byte strings at fixed addresses
  of the emulated EEPROM (\<^verbatim>\<open>EEPROM.begin(EEPROM_SIZE)\<close>). The store is a list of
  \<open>EEPROM_SIZE\<close> bytes. The board library's accessors take an \<^verbatim>\<open>int\<close> address and
  check it: a read outside the store gives 0, a write outside the store is dropped.
  \<^verbatim>\<open>begin\<close>, \<^verbatim>\<open>commit\<close> and \<^verbatim>\<open>end\<close> load and
  save the same bytes; a commit is taken to succeed.

  An address is the 32-bit pattern of the \<^verbatim>\<open>int\<close>: in \<^verbatim>\<open>addr + i\<close> the
  \<^verbatim>\<open>int addr\<close> is converted to \<^verbatim>\<open>unsigned int\<close>, the sum wraps, and the
  accessor reads it back as a signed value.
\<close>

definition EEPROM_SIZE :: nat where
  "EEPROM_SIZE = 512"

type_synonym eeprom = "char list"

definition EEPROM_read :: "eeprom \<Rightarrow> 32 word \<Rightarrow> char" where
  "EEPROM_read mem address =
     (if sint address < 0 \<or> int (length mem) \<le> sint address then CHR 0x00
      else mem ! nat (sint address))"

definition EEPROM_write :: "eeprom \<Rightarrow> 32 word \<Rightarrow> char \<Rightarrow> eeprom" where
  "EEPROM_write mem address val =
     (if sint address < 0 \<or> int (length mem) \<le> sint address then mem
      else mem[nat (sint address) := val])"

text \<open>
  \<^verbatim>\<open>for (unsigned int i = 0; i < data.length(); i++) EEPROM.write(addr + i, data[i]);\<close>
  \<^verbatim>\<open>data.length()\<close> is an \<^verbatim>\<open>unsigned int\<close>.
\<close>

function write_loop :: "32 word \<Rightarrow> string \<Rightarrow> 32 word \<Rightarrow> eeprom \<Rightarrow> eeprom" where
  "write_loop addr data i mem =
     (if i < word_of_nat (length data)
      then write_loop addr data (i + 1) (EEPROM_write mem (addr + i) (data ! unat i))
      else mem)"
  by pat_completeness auto
termination
proof (relation "measure (\<lambda>(addr, data, i, mem). unat (word_of_nat (length data) :: 32 word) - unat i)")
  show "wf (measure (\<lambda>(addr, data, i, mem). unat (word_of_nat (length data) :: 32 word) - unat i))"
    by simp
next
  fix addr :: "32 word" and data :: string and i :: "32 word" and mem :: eeprom
  assume lt: "i < word_of_nat (length data)"
  then have "unat (i + 1) = unat i + 1"
    by (metis (no_types, lifting) add.commute add_0 inc_i inc_le
        unat_plus_simple unsigned_0 unsigned_1 word_gt_0)
  moreover from lt have "unat i < unat (word_of_nat (length data) :: 32 word)"
    by (simp add: word_less_nat_alt)
  ultimately show "((addr, data, i + 1, EEPROM_write mem (addr + i) (data ! unat i)),
      (addr, data, i, mem))
    \<in> measure (\<lambda>(addr, data, i, mem). unat (word_of_nat (length data) :: 32 word) - unat i)"
    by simp
qed

definition writeStringToEEPROM :: "eeprom \<Rightarrow> 32 word \<Rightarrow> string \<Rightarrow> eeprom" where
  "writeStringToEEPROM mem addr data = write_loop addr data 0 mem"

text \<open>
  \<^verbatim>\<open>for (unsigned int i = 0; i < 50; i++) { character = EEPROM.read(addr + i);
  if (character == 0) break; data.concat(character); }\<close>
\<close>

function read_loop :: "eeprom \<Rightarrow> 32 word \<Rightarrow> 32 word \<Rightarrow> string \<Rightarrow> string" where
  "read_loop mem addr i data =
     (if i < 50
      then (let character = EEPROM_read mem (addr + i)
            in if character = CHR 0x00 then data
               else read_loop mem addr (i + 1) (data @ [character]))
      else data)"
  by pat_completeness auto
termination
proof (relation "measure (\<lambda>(mem, addr, i, data). 50 - unat i)")
  show "wf (measure (\<lambda>(mem, addr, i, data). 50 - unat i))"
    by simp
next
  fix mem :: eeprom and addr i :: "32 word" and data :: string and x :: char
  assume lt: "i < 50"
  then have b: "unat i < 50"
    by (simp add: word_less_nat_alt)
  then have "unat (i + 1) = unat i + 1"
    by (simp add: unat_word_ariths)
  with b show "((mem, addr, i + 1, data @ [x]), (mem, addr, i, data))
    \<in> measure (\<lambda>(mem, addr, i, data). 50 - unat i)"
    by simp
qed

definition readStringFromEEPROM :: "eeprom \<Rightarrow> 32 word \<Rightarrow> string" where
  "readStringFromEEPROM mem addr = read_loop mem addr 0 []"

text \<open>\<^verbatim>\<open>clearWiFiConfig\<close>: \<^verbatim>\<open>writeStringToEEPROM(0, ""); writeStringToEEPROM(50, "");\<close>\<close>

definition clearWiFiConfig :: "eeprom \<Rightarrow> eeprom" where
  "clearWiFiConfig mem = writeStringToEEPROM (writeStringToEEPROM mem 0 []) 50 []"

definition storeWiFiConfig :: "eeprom \<Rightarrow> string \<Rightarrow> string \<Rightarrow> eeprom" where
  "storeWiFiConfig mem ssid password =
     writeStringToEEPROM (writeStringToEEPROM mem 0 ssid) 50 password"

text \<open>
  A store that holds an earlier, longer network name at address 0 and zeros elsewhere
  (what \<^verbatim>\<open>storeWiFiConfig\<close> leaves at address 0 of a zeroed store), and a zeroed store.
\<close>

definition stale_store :: eeprom where
  "stale_store = ''oldnetwork'' @ replicate 502 (CHR 0x00)"

definition zeroed_store :: eeprom where
  "zeroed_store = replicate 512 (CHR 0x00)"

section \<open>Text and JSON\<close>

text \<open>\<^verbatim>\<open>String(n)\<close> for an unsigned number: its decimal digits.\<close>

definition digit :: "nat \<Rightarrow> char" where
  "digit d = ''0123456789'' ! d"

fun String_of_nat :: "nat \<Rightarrow> string" where
  "String_of_nat n =
     (if n < 10 then [digit n]
      else String_of_nat (n div 10) @ [digit (n mod 10)])"

declare String_of_nat.simps [simp del]

text \<open>
  \<^verbatim>\<open>formatUptime\<close>; \<^verbatim>\<open>unsigned long\<close> has 32 bits on this board.
\<close>

definition formatUptime :: "32 word \<Rightarrow> string" where
  "formatUptime uptimeSeconds =
     (let days = uptimeSeconds div 86400;
          hours = (uptimeSeconds mod 86400) div 3600;
          minutes = (uptimeSeconds mod 3600) div 60;
          seconds = uptimeSeconds mod 60
      in String_of_nat (unat days) @ ''d '' @ String_of_nat (unat hours) @ ''h ''
         @ String_of_nat (unat minutes) @ ''m '' @ String_of_nat (unat seconds) @ ''s'')"

text \<open>
  A JSON document as the firmware builds it (\<^verbatim>\<open>doc["key"] = value\<close>): members in
  the order of their first assignment. A member is a string, an unsigned integer, or a
  floating-point number. The JSON library prints a floating-point number; that function
  is not part of the firmware, so a floating-point member is kept as the text the
  library prints for it. The documents are taken to fit their capacity
  (\<^verbatim>\<open>DynamicJsonDocument doc(256)\<close>).
\<close>

datatype json_value = JString string | JUnsigned "32 word" | JFloat string

type_synonym json_doc = "(string \<times> json_value) list"

text \<open>The library escapes the quote, the backslash and five control characters.\<close>

definition escape_char :: "char \<Rightarrow> string" where
  "escape_char c =
     (if c = CHR 0x22 then [CHR 0x5C, CHR 0x22]
      else if c = CHR 0x5C then [CHR 0x5C, CHR 0x5C]
      else if c = CHR 0x08 then [CHR 0x5C, CHR ''b'']
      else if c = CHR 0x0C then [CHR 0x5C, CHR ''f'']
      else if c = CHR 0x0A then [CHR 0x5C, CHR ''n'']
      else if c = CHR 0x0D then [CHR 0x5C, CHR ''r'']
      else if c = CHR 0x09 then [CHR 0x5C, CHR ''t'']
      else [c])"

definition quoted :: "string \<Rightarrow> string" where
  "quoted s = [CHR 0x22] @ concat (map escape_char s) @ [CHR 0x22]"

fun json_text :: "json_value \<Rightarrow> string" where
  "json_text (JString s) = quoted s"
| "json_text (JUnsigned n) = String_of_nat (unat n)"
| "json_text (JFloat t) = t"

definition json_member :: "string \<times> json_value \<Rightarrow> string" where
  "json_member m = quoted (fst m) @ '':'' @ json_text (snd m)"

fun comma_separated :: "string list \<Rightarrow> string" where
  "comma_separated [] = []"
| "comma_separated [x] = x"
| "comma_separated (x # y # ys) = x @ '','' @ comma_separated (y # ys)"

definition serializeJson :: "json_doc \<Rightarrow> string" where
  "serializeJson doc = ''{'' @ comma_separated (map json_member doc) @ ''}''"

text \<open>
  The body of an HTTP response: text that is not JSON, or a JSON object, given by its
  members and the text \<^verbatim>\<open>as<String>()\<close> reads from each.
  \<^verbatim>\<open>deserializeJson\<close> leaves the document empty when the text does not parse (the
  firmware does not look at its result), and \<^verbatim>\<open>as<String>()\<close> of a missing
  member is the text \<^verbatim>\<open>null\<close>.
\<close>

datatype http_body = NotJson string | JsonObject "(string \<times> string) list"

fun deserializeJson :: "http_body \<Rightarrow> (string \<times> string) list" where
  "deserializeJson (NotJson t) = []"
| "deserializeJson (JsonObject ms) = ms"

definition as_String :: "(string \<times> string) list \<Rightarrow> string \<Rightarrow> string" where
  "as_String responseDoc key =
     (case map_of responseDoc key of None \<Rightarrow> ''null'' | Some v \<Rightarrow> v)"

section \<open>The device and its environment\<close>

definition apiEndpoint :: string where
  "apiEndpoint = ''https://windevs.uz/sensors/api/sensor-data/''"

definition tokenEndpoint :: string where
  "tokenEndpoint = ''https://windevs.uz/sensors/api/token/''"

definition refreshEndpoint :: string where
  "refreshEndpoint = ''https://windevs.uz/sensors/api/token/refresh/''"

definition basicAuthUsername :: string where
  "basicAuthUsername = ''bekhzad''"

definition basicAuthPassword :: string where
  "basicAuthPassword = ''admin''"

text \<open>
  Of a request handed to the network the model keeps the endpoint, the value of the
  \<^verbatim>\<open>Authorization\<close> header (when one was added) and the body.
\<close>

record request =
  url :: string
  authorization :: "string option"
  body :: string

text \<open>
  A reply is the value of \<^verbatim>\<open>http.POST\<close> (the HTTP status, or a negative number
  when the transport failed) and the text of \<^verbatim>\<open>http.getString()\<close>.
\<close>

record reply =
  code :: int
  content :: http_body

text \<open>
  What the device observes: whether the network is connected, the reply to a request, the
  millisecond clock. Each observation is indexed by the number of observations made
  before it, so an environment can answer every sequence of polls in any way.
\<close>

record env =
  wifi_connected :: "nat \<Rightarrow> bool"
  http_reply :: "nat \<Rightarrow> reply"
  millis :: "nat \<Rightarrow> 32 word"
  macAddress :: string

text \<open>
  The globals \<^verbatim>\<open>jwtToken\<close>, \<^verbatim>\<open>refreshTokenString\<close> and
  \<^verbatim>\<open>tokenExpiryTime\<close>, the number of observations made so far, and the requests
  sent so far, oldest first.
\<close>

record world =
  jwtToken :: string
  refreshTokenString :: string
  tokenExpiryTime :: "32 word"
  tick :: nat
  sent :: "request list"

definition boot :: world where
  "boot = \<lparr>jwtToken = [], refreshTokenString = [], tokenExpiryTime = 0, tick = 0, sent = []\<rparr>"

text \<open>The global \<^verbatim>\<open>startTime\<close> is declared and never assigned.\<close>

definition startTime :: "32 word" where
  "startTime = 0"

definition WiFi_connected :: "env \<Rightarrow> world \<Rightarrow> bool \<times> world" where
  "WiFi_connected e w = (wifi_connected e (tick w), w\<lparr>tick := Suc (tick w)\<rparr>)"

definition read_millis :: "env \<Rightarrow> world \<Rightarrow> 32 word \<times> world" where
  "read_millis e w = (millis e (tick w), w\<lparr>tick := Suc (tick w)\<rparr>)"

definition http_POST :: "env \<Rightarrow> request \<Rightarrow> world \<Rightarrow> reply \<times> world" where
  "http_POST e req w =
     (http_reply e (tick w), w\<lparr>tick := Suc (tick w), sent := sent w @ [req]\<rparr>)"

definition generateSensorID :: "env \<Rightarrow> string" where
  "generateSensorID e = macAddress e"

section \<open>Credentials\<close>

definition obtainTokens :: "env \<Rightarrow> world \<Rightarrow> bool \<times> world" where
  "obtainTokens e w =
     (let (connected, w1) = WiFi_connected e w in
      if connected then
        let doc = [(''username'', JString basicAuthUsername),
                   (''password'', JString basicAuthUsername)];
            payload = serializeJson doc;
            (r, w2) = http_POST e \<lparr>url = tokenEndpoint, authorization = None, body = payload\<rparr> w1
        in if code r = 200 then
             let responseDoc = deserializeJson (content r);
                 w3 = w2\<lparr>jwtToken := as_String responseDoc ''access''\<rparr>;
                 w4 = w3\<lparr>refreshTokenString := as_String responseDoc ''refresh''\<rparr>;
                 (now, w5) = read_millis e w4
             in (True, w5\<lparr>tokenExpiryTime := now + 300000\<rparr>)
           else (False, w2)
      else (False, w1))"

definition refreshToken :: "env \<Rightarrow> world \<Rightarrow> bool \<times> world" where
  "refreshToken e w =
     (let (connected, w1) = WiFi_connected e w in
      if connected then
        let doc = [(''refresh'', JString (refreshTokenString w1))];
            payload = serializeJson doc;
            (r, w2) = http_POST e \<lparr>url = refreshEndpoint, authorization = None, body = payload\<rparr> w1
        in if code r = 200 then
             let responseDoc = deserializeJson (content r);
                 w3 = w2\<lparr>jwtToken := as_String responseDoc ''access''\<rparr>;
                 w4 = w3\<lparr>refreshTokenString := as_String responseDoc ''refresh''\<rparr>;
                 (now, w5) = read_millis e w4
             in (True, w5\<lparr>tokenExpiryTime := now + 300000\<rparr>)
           else (False, w2)
      else (False, w1))"

text \<open>The test of the main loop, \<^verbatim>\<open>millis() > tokenExpiryTime\<close>, at clock value \<open>now\<close>.\<close>

definition needs_renewal :: "32 word \<Rightarrow> world \<Rightarrow> bool" where
  "needs_renewal now w = (now > tokenExpiryTime w)"

section \<open>Upload\<close>

text \<open>
  The readings are floating-point numbers of a type \<open>'f\<close>; \<open>number\<close> is the text the
  JSON library prints for one.
\<close>

definition upload_payload ::
  "('f \<Rightarrow> string) \<Rightarrow> env \<Rightarrow> 'f \<Rightarrow> 'f \<Rightarrow> 'f \<Rightarrow> 32 word \<Rightarrow> string \<Rightarrow> string" where
  "upload_payload number e humidity tempC heatIndexC uptime timestamp =
     serializeJson
       [(''sensor_id'', JString (generateSensorID e)),
        (''humidity'', JFloat (number humidity)),
        (''temperature'', JFloat (number tempC)),
        (''heat_index'', JFloat (number heatIndexC)),
        (''uptime'', JUnsigned uptime),
        (''datetime'', JString timestamp)]"

definition sendDataToAPI ::
  "('f \<Rightarrow> string) \<Rightarrow> env \<Rightarrow> 'f \<Rightarrow> 'f \<Rightarrow> 'f \<Rightarrow> 'f \<Rightarrow> 'f \<Rightarrow> 32 word \<Rightarrow> string
   \<Rightarrow> world \<Rightarrow> world" where
  "sendDataToAPI number e humidity tempC tempF heatIndexC heatIndexF uptime timestamp w =
     (let (connected, w1) = WiFi_connected e w in
      if connected then
        let bearer = ''Bearer '' @ jwtToken w1;
            payload = upload_payload number e humidity tempC heatIndexC uptime timestamp;
            (r, w2) = http_POST e \<lparr>url = apiEndpoint, authorization = Some bearer, body = payload\<rparr> w1
        in if code r = 401 then
             (let (renewed, w3) = refreshToken e w2 in
              if renewed
              then snd (http_POST e \<lparr>url = apiEndpoint,
                          authorization = Some (''Bearer '' @ jwtToken w3), body = payload\<rparr> w3)
              else w3)
           else w2
      else w1)"

text \<open>
  One pass of \<^verbatim>\<open>loop\<close>: the three sensor values and the timestamp are inputs, the
  library's \<^verbatim>\<open>isnan\<close> and \<^verbatim>\<open>computeHeatIndex\<close> are parameters. The serial
  console, the light, the reset button and the web server are left out.
\<close>

definition loop ::
  "('f \<Rightarrow> bool) \<Rightarrow> ('f \<Rightarrow> 'f \<Rightarrow> bool \<Rightarrow> 'f) \<Rightarrow> ('f \<Rightarrow> string) \<Rightarrow> env
   \<Rightarrow> 'f \<Rightarrow> 'f \<Rightarrow> 'f \<Rightarrow> string \<Rightarrow> world \<Rightarrow> world" where
  "loop isnan computeHeatIndex number e h t f timestamp w =
     (if isnan h \<or> isnan t \<or> isnan f then w
      else
        let hif = computeHeatIndex f h True;
            hic = computeHeatIndex t h False;
            (currentTime, w1) = read_millis e w;
            uptime = (currentTime - startTime) div 1000;
            w2 = sendDataToAPI number e h t f hic hif uptime timestamp w1;
            (now, w3) = read_millis e w2
        in if needs_renewal now w3 then snd (refreshToken e w3) else w3)"

text \<open>
  An upload request with a given token and payload, and the requests a run has added to
  the log: all of them, and those to the upload endpoint.
\<close>

definition upload_request :: "string \<Rightarrow> string \<Rightarrow> request" where
  "upload_request token payload =
     \<lparr>url = apiEndpoint, authorization = Some (''Bearer '' @ token), body = payload\<rparr>"

definition requests_since :: "world \<Rightarrow> world \<Rightarrow> request list" where
  "requests_since w w' = drop (length (sent w)) (sent w')"

definition uploads_since :: "world \<Rightarrow> world \<Rightarrow> request list" where
  "uploads_since w w' = filter (\<lambda>r. url r = apiEndpoint) (requests_since w w')"

section \<open>Sample replies, environments and states\<close>

text \<open>
  Concrete inputs for the examples below: four replies of a server, a state that holds
  a credential, and an environment whose network is connected, whose clock stands at a
  given value and whose server answers as given.
\<close>

definition granted :: reply where
  "granted = \<lparr>code = 200, content = JsonObject [(''access'', ''A1''), (''refresh'', ''R1'')]\<rparr>"

definition server_error :: reply where
  "server_error = \<lparr>code = 500, content = NotJson ''Server Error''\<rparr>"

definition unauthorized :: reply where
  "unauthorized = \<lparr>code = 401, content = NotJson []\<rparr>"

definition garbled :: reply where
  "garbled = \<lparr>code = 200, content = NotJson ''<html>''\<rparr>"

text \<open>A reply with status 200 whose body has the access token and no refresh token.\<close>

definition access_only :: reply where
  "access_only = \<lparr>code = 200, content = JsonObject [(''access'', ''A1'')]\<rparr>"

definition held :: world where
  "held = boot\<lparr>jwtToken := ''A0'', refreshTokenString := ''R0'', tokenExpiryTime := 7\<rparr>"

definition online :: "(nat \<Rightarrow> reply) \<Rightarrow> 32 word \<Rightarrow> env" where
  "online replies now =
     \<lparr>wifi_connected = (\<lambda>n. True), http_reply = replies, millis = (\<lambda>n. now),
      macAddress = ''24:6F:28:AA:BB:CC''\<rparr>"

text \<open>
  A server that rejects the first upload and grants everything else, a server that
  rejects everything, and the payload of a sample reading.
\<close>

definition expiring :: env where
  "expiring = online (\<lambda>n. if n = 1 then unauthorized else granted) 1000"

definition rejecting :: env where
  "rejecting = online (\<lambda>n. unauthorized) 1000"

definition sample_payload :: string where
  "sample_payload =
     upload_payload (\<lambda>x. x) expiring ''45.2'' ''22.1'' ''22.0'' 3725 ''2024-02-07 10:15:25''"

text \<open>A server that answers every request with status 500.\<close>

definition failing :: env where
  "failing = online (\<lambda>n. server_error) 1000"

section \<open>Properties of the configuration store\<close>

text \<open>The signed address check, in terms of the unsigned value of the address.\<close>

lemma sint_small: "unat (a :: 32 word) < 2147483648 \<Longrightarrow> sint a = int (unat a)"
proof -
  assume a: "unat a < 2147483648"
  have u: "uint a = int (unat a)" by simp
  have p: "(2::int) ^ 31 = 2147483648" by simp
  have "- (2 ^ 31) \<le> uint a" "uint a < 2 ^ 31" using a u p by linarith+
  then have "signed_take_bit 31 (uint a) = uint a"
    by (rule signed_take_bit_int_eq_self)
  moreover have "sint a = signed_take_bit 31 (uint a)" by (simp add: sint_uint)
  ultimately show ?thesis using u by linarith
qed
lemma sint_big: "2147483648 \<le> unat (a :: 32 word) \<Longrightarrow> sint a < 0"
proof -
  assume a: "2147483648 \<le> unat a"
  have u: "uint a = int (unat a)" by simp
  have p: "(2::int) ^ 31 = 2147483648" by simp
  have b: "2 ^ 31 \<le> uint a" using a u p by linarith
  have "signed_take_bit 31 (uint a) \<le> uint a - 2 ^ Suc 31"
    using b by (rule signed_take_bit_int_less_eq)
  then have "signed_take_bit 31 (uint a) \<le> uint a - 4294967296" by simp
  moreover have "uint a < 4294967296" using uint_bounded [of a] by simp
  moreover have "sint a = signed_take_bit 31 (uint a)" by (simp add: sint_uint)
  ultimately show ?thesis by linarith
qed
lemma outside_iff:
  "length mem = EEPROM_SIZE \<Longrightarrow>
     (sint (a :: 32 word) < 0 \<or> int (length mem) \<le> sint a) = (EEPROM_SIZE \<le> unat a)"
proof -
  assume l: "length mem = EEPROM_SIZE"
  show ?thesis
  proof (cases "unat a < 2147483648")
    case True
    then have "sint a = int (unat a)" by (rule sint_small)
    then show ?thesis using l unfolding EEPROM_SIZE_def by linarith
  next
    case False
    then have "sint a < 0" using sint_big [of a] by linarith
    then show ?thesis using l False unfolding EEPROM_SIZE_def by linarith
  qed
qed
lemma nat_sint_inside:
  "\<not> EEPROM_SIZE \<le> unat (a :: 32 word) \<Longrightarrow> nat (sint a) = unat a"
proof -
  assume "\<not> EEPROM_SIZE \<le> unat a"
  then have "unat a < 2147483648" unfolding EEPROM_SIZE_def by linarith
  then have "sint a = int (unat a)" by (rule sint_small)
  then show ?thesis by linarith
qed
lemma EEPROM_read_eq:
  "length mem = EEPROM_SIZE \<Longrightarrow>
     EEPROM_read mem a = (if EEPROM_SIZE \<le> unat a then CHR 0x00 else mem ! unat a)"
proof (cases "EEPROM_SIZE \<le> unat a")
  case True
  assume "length mem = EEPROM_SIZE"
  with True show ?thesis using outside_iff [of mem a] by (simp add: EEPROM_read_def)
next
  case False
  assume "length mem = EEPROM_SIZE"
  with False show ?thesis using outside_iff [of mem a] nat_sint_inside [of a]
    by (simp add: EEPROM_read_def)
qed
lemma EEPROM_write_eq:
  "length mem = EEPROM_SIZE \<Longrightarrow>
     EEPROM_write mem a v = (if EEPROM_SIZE \<le> unat a then mem else mem[unat a := v])"
proof (cases "EEPROM_SIZE \<le> unat a")
  case True
  assume "length mem = EEPROM_SIZE"
  with True show ?thesis using outside_iff [of mem a] by (simp add: EEPROM_write_def)
next
  case False
  assume "length mem = EEPROM_SIZE"
  with False show ?thesis using outside_iff [of mem a] nat_sint_inside [of a]
    by (simp add: EEPROM_write_def)
qed
lemma length_EEPROM_write: "length (EEPROM_write mem a v) = length mem"
  by (simp add: EEPROM_write_def)

lemma takeWhile_append_stop:
  "\<not> P z \<Longrightarrow> takeWhile P (xs @ replicate n z) = takeWhile P xs"
  by (induction xs) auto

lemma read_loop_takeWhile:
  "unat i \<le> 50 \<Longrightarrow> read_loop mem addr i data =
     data @ takeWhile (\<lambda>c. c \<noteq> CHR 0x00)
       (map (\<lambda>k. EEPROM_read mem (addr + word_of_nat k)) [unat i..<50])"
proof (induction mem addr i data rule: read_loop.induct)
  case (1 mem addr i data)
  show ?case
  proof (cases "i < 50")
    case False
    then have "unat i = 50" using "1.prems" by (simp add: word_less_nat_alt)
    with False show ?thesis by simp
  next
    case True
    then have b: "unat i < 50" by (simp add: word_less_nat_alt)
    then have s: "unat (i + 1) = Suc (unat i)" by (simp add: unat_word_ariths)
    have u: "[unat i..<50] = unat i # [Suc (unat i)..<50]"
      using b by (simp add: upt_conv_Cons)
    show ?thesis
    proof (cases "EEPROM_read mem (addr + i) = CHR 0x00")
      case True
      with \<open>i < 50\<close> show ?thesis by (simp add: u)
    next
      case False
      have "read_loop mem addr i data =
          read_loop mem addr (i + 1) (data @ [EEPROM_read mem (addr + i)])"
        using False \<open>i < 50\<close> by (simp add: Let_def)
      also have "\<dots> = (data @ [EEPROM_read mem (addr + i)]) @ takeWhile (\<lambda>c. c \<noteq> CHR 0x00)
          (map (\<lambda>k. EEPROM_read mem (addr + word_of_nat k)) [unat (i + 1)..<50])"
        using "1.IH" [OF \<open>i < 50\<close> refl False] b s by simp
      finally show ?thesis using False by (simp add: u s)
    qed
  qed
qed

text \<open>A write inside the store replaces the bytes under the string and no others.\<close>

lemma write_loop_eq:
  "length mem = EEPROM_SIZE \<Longrightarrow> unat addr + length data \<le> EEPROM_SIZE \<Longrightarrow>
   unat i \<le> length data \<Longrightarrow>
   write_loop addr data i mem =
     take (unat addr + unat i) mem @ drop (unat i) data @ drop (unat addr + length data) mem"
proof (induction addr data i mem rule: write_loop.induct)
  case (1 addr data i mem)
  have n: "length data \<le> 512" using "1.prems"(2) by (simp add: EEPROM_SIZE_def)
  then have un: "unat (word_of_nat (length data) :: 32 word) = length data"
    by (simp add: unat_of_nat)
  have l: "length mem = 512" using "1.prems"(1) by (simp add: EEPROM_SIZE_def)
  show ?case
  proof (cases "i < word_of_nat (length data)")
    case False
    then have "unat i = length data"
      using "1.prems"(3) un by (simp add: word_less_nat_alt)
    with False show ?thesis by simp
  next
    case True
    then have k: "unat i < length data" using un by (simp add: word_less_nat_alt)
    then have s: "unat (i + 1) = Suc (unat i)" using n by (simp add: unat_word_ariths)
    have a: "unat (addr + i) = unat addr + unat i"
      using k "1.prems"(2) by (simp add: unat_word_ariths EEPROM_SIZE_def)
    have inside: "unat addr + unat i < 512"
      using k "1.prems"(2) by (simp add: EEPROM_SIZE_def)
    let ?mem' = "EEPROM_write mem (addr + i) (data ! unat i)"
    have w: "?mem' = mem[unat addr + unat i := data ! unat i]"
      using "1.prems"(1) inside by (simp add: EEPROM_write_eq a EEPROM_SIZE_def)
    have l': "length ?mem' = EEPROM_SIZE"
      using "1.prems"(1) by (simp add: length_EEPROM_write)
    have "write_loop addr data i mem = write_loop addr data (i + 1) ?mem'"
      using True by simp
    also have "\<dots> = take (unat addr + unat (i + 1)) ?mem' @ drop (unat (i + 1)) data
        @ drop (unat addr + length data) ?mem'"
      using "1.IH" [OF True l' "1.prems"(2)] k s by simp
    also have "take (unat addr + unat (i + 1)) ?mem' = take (unat addr + unat i) mem @ [data ! unat i]"
      using inside l by (simp add: w s take_Suc_conv_app_nth)
    also have "drop (unat addr + length data) ?mem' = drop (unat addr + length data) mem"
      using k by (simp add: w)
    also have "(take (unat addr + unat i) mem @ [data ! unat i]) @ drop (unat (i + 1)) data
        @ drop (unat addr + length data) mem
      = take (unat addr + unat i) mem @ drop (unat i) data @ drop (unat addr + length data) mem"
      using k by (simp add: s Cons_nth_drop_Suc)
    finally show ?thesis .
  qed
qed

lemma writeStringToEEPROM_eq:
  "length mem = EEPROM_SIZE \<Longrightarrow> unat addr + length data \<le> EEPROM_SIZE \<Longrightarrow>
   writeStringToEEPROM mem addr data =
     take (unat addr) mem @ data @ drop (unat addr + length data) mem"
  using write_loop_eq [of mem addr data 0] by (simp add: writeStringToEEPROM_def)

lemma write_empty: "writeStringToEEPROM mem addr [] = mem"
  by (simp add: writeStringToEEPROM_def)

text \<open>What a read returns, and what it returns after a write.\<close>

lemma readStringFromEEPROM_first_zero:
  "EEPROM_read mem addr = CHR 0x00 \<Longrightarrow> readStringFromEEPROM mem addr = []"
  using read_loop_takeWhile [of 0 mem addr "[]"]
  by (simp add: readStringFromEEPROM_def upt_conv_Cons)

lemma readStringFromEEPROM_eq:
  assumes len: "length mem = EEPROM_SIZE"
  shows "readStringFromEEPROM mem addr =
           takeWhile (\<lambda>c. c \<noteq> CHR 0x00) (take 50 (drop (unat addr) mem))"
proof (cases "EEPROM_SIZE \<le> unat addr")
  case True
  then have "EEPROM_read mem addr = CHR 0x00" using len by (simp add: EEPROM_read_eq)
  then have "readStringFromEEPROM mem addr = []" by (rule readStringFromEEPROM_first_zero)
  with True len show ?thesis by simp
next
  case False
  let ?P = "\<lambda>c. c \<noteq> CHR 0x00"
  let ?f = "\<lambda>k. EEPROM_read mem (addr + word_of_nat k)"
  have main: "readStringFromEEPROM mem addr = takeWhile ?P (map ?f [0..<50])"
    using read_loop_takeWhile [of 0 mem addr "[]"] by (simp add: readStringFromEEPROM_def)
  from False have a: "unat addr < 512" by (simp add: EEPROM_SIZE_def)
  have l: "length mem = 512" using len by (simp add: EEPROM_SIZE_def)
  have nth: "?f k = (if unat addr + k < 512 then mem ! (unat addr + k) else CHR 0x00)"
    if "k < 50" for k
  proof -
    have "unat (addr + word_of_nat k) = unat addr + k"
      using a that by (simp add: unat_word_ariths unat_of_nat)
    then show ?thesis using len by (simp add: EEPROM_read_eq EEPROM_SIZE_def)
  qed
  have "map ?f [0..<50] =
      take 50 (drop (unat addr) mem) @ replicate (50 - (512 - unat addr)) (CHR 0x00)"
  proof (rule nth_equalityI)
    show "length (map ?f [0..<50]) =
        length (take 50 (drop (unat addr) mem) @ replicate (50 - (512 - unat addr)) (CHR 0x00))"
      using a l by simp
  next
    fix k
    assume "k < length (map ?f [0..<50])"
    then have k: "k < 50" by simp
    have e: "(k < 512 - unat addr) = (unat addr + k < 512)" using a by arith
    show "map ?f [0..<50] ! k =
        (take 50 (drop (unat addr) mem) @ replicate (50 - (512 - unat addr)) (CHR 0x00)) ! k"
      using k a l nth [OF k] by (simp add: nth_append e)
  qed
  then show ?thesis unfolding main by (simp add: takeWhile_append_stop)
qed

lemma write_then_read:
  assumes "length mem = EEPROM_SIZE" and "unat addr + length data \<le> EEPROM_SIZE"
  shows "readStringFromEEPROM (writeStringToEEPROM mem addr data) addr =
           takeWhile (\<lambda>c. c \<noteq> CHR 0x00) (take 50 (data @ drop (unat addr + length data) mem))"
proof -
  have w: "writeStringToEEPROM mem addr data =
      take (unat addr) mem @ data @ drop (unat addr + length data) mem"
    using assms by (rule writeStringToEEPROM_eq)
  have a: "unat addr \<le> length mem" using assms by simp
  have "length (writeStringToEEPROM mem addr data) = EEPROM_SIZE"
    using assms by (simp add: w)
  then have "readStringFromEEPROM (writeStringToEEPROM mem addr data) addr =
      takeWhile (\<lambda>c. c \<noteq> CHR 0x00) (take 50 (drop (unat addr) (writeStringToEEPROM mem addr data)))"
    by (rule readStringFromEEPROM_eq)
  also have "drop (unat addr) (writeStringToEEPROM mem addr data) =
      data @ drop (unat addr + length data) mem"
    using a by (simp add: w)
  finally show ?thesis .
qed

text \<open>
  C9. With the store at its size of \<open>EEPROM_SIZE\<close> bytes, for every address and every
  content, \<^verbatim>\<open>readStringFromEEPROM\<close> returns the bytes from the address on up to, and
  without, the first zero byte, or the first 50 of them (the fixed maximal length of the
  loop) when none of these is zero; the bytes past the end of the store read as zero.
  In particular the result is empty whenever the byte at the address is zero.
\<close>

theorem read_semantics:
  assumes len: "length mem = EEPROM_SIZE"
  shows "readStringFromEEPROM mem addr =
           takeWhile (\<lambda>c. c \<noteq> CHR 0x00) (take 50 (drop (unat addr) mem))
         \<and> (EEPROM_read mem addr = CHR 0x00 \<longrightarrow> readStringFromEEPROM mem addr = [])"
  using readStringFromEEPROM_eq [OF len] readStringFromEEPROM_first_zero by blast

theorem read_semantics_witness:
  "length stale_store = EEPROM_SIZE
   \<and> readStringFromEEPROM stale_store 0 = ''oldnetwork''
   \<and> length zeroed_store = EEPROM_SIZE
   \<and> EEPROM_read zeroed_store 50 = CHR 0x00
   \<and> readStringFromEEPROM zeroed_store 50 = []"
proof -
  have l1: "length stale_store = EEPROM_SIZE"
    by (simp add: stale_store_def EEPROM_SIZE_def)
  have l2: "length zeroed_store = EEPROM_SIZE"
    by (simp add: zeroed_store_def EEPROM_SIZE_def)
  have z: "EEPROM_read zeroed_store 50 = CHR 0x00"
    by (simp add: EEPROM_read_def zeroed_store_def)
  have "readStringFromEEPROM stale_store 0 = ''oldnetwork''"
    using read_semantics [OF l1, of 0] by (simp add: stale_store_def)
  moreover have "readStringFromEEPROM zeroed_store 50 = []"
    using read_semantics [OF l2, of 50] z by blast
  ultimately show ?thesis using l1 l2 z by simp
qed

text \<open>
  C1. Writing a string stores its characters and no terminating zero byte, so a read
  after a write also returns what an earlier, longer string left behind it, and writing
  the empty string (\<^verbatim>\<open>clearWiFiConfig\<close>) changes nothing. On the store
  \<open>stale_store\<close>: writing \<^verbatim>\<open>myssid\<close> at address 0 and reading it back gives
  \<^verbatim>\<open>myssidwork\<close>, and after a clear the read still gives \<^verbatim>\<open>oldnetwork\<close>.
\<close>

theorem write_read_keeps_old_tail:
  "length stale_store = EEPROM_SIZE
   \<and> readStringFromEEPROM (writeStringToEEPROM stale_store 0 ''myssid'') 0 = ''myssidwork''
   \<and> readStringFromEEPROM (writeStringToEEPROM stale_store 0 []) 0 = ''oldnetwork''
   \<and> clearWiFiConfig stale_store = stale_store
   \<and> readStringFromEEPROM (clearWiFiConfig stale_store) 0 = ''oldnetwork''"
proof -
  have l: "length stale_store = EEPROM_SIZE"
    by (simp add: stale_store_def EEPROM_SIZE_def)
  have a: "readStringFromEEPROM (writeStringToEEPROM stale_store 0 ''myssid'') 0 = ''myssidwork''"
    using write_then_read [OF l, of 0 "''myssid''"]
    by (simp add: stale_store_def EEPROM_SIZE_def)
  have r: "readStringFromEEPROM stale_store 0 = ''oldnetwork''"
    using readStringFromEEPROM_eq [OF l, of 0] by (simp add: stale_store_def)
  have c: "clearWiFiConfig stale_store = stale_store"
    by (simp add: clearWiFiConfig_def write_empty)
  from l a r c show ?thesis by (simp add: write_empty)
qed

section \<open>Properties of the credentials\<close>

text \<open>Both token functions, case by case.\<close>

lemma refreshToken_cases:
  "refreshToken e w =
     (if wifi_connected e (tick w) \<and> code (http_reply e (Suc (tick w))) = 200
      then (True, w\<lparr>jwtToken := as_String (deserializeJson (content (http_reply e (Suc (tick w))))) ''access'',
                    refreshTokenString := as_String (deserializeJson (content (http_reply e (Suc (tick w))))) ''refresh'',
                    tokenExpiryTime := millis e (Suc (Suc (tick w))) + 300000,
                    tick := Suc (Suc (Suc (tick w))),
                    sent := sent w @ [\<lparr>url = refreshEndpoint, authorization = None,
                       body = serializeJson [(''refresh'', JString (refreshTokenString w))]\<rparr>]\<rparr>)
      else if wifi_connected e (tick w)
      then (False, w\<lparr>tick := Suc (Suc (tick w)),
                    sent := sent w @ [\<lparr>url = refreshEndpoint, authorization = None,
                       body = serializeJson [(''refresh'', JString (refreshTokenString w))]\<rparr>]\<rparr>)
      else (False, w\<lparr>tick := Suc (tick w)\<rparr>))"
  by (simp add: refreshToken_def WiFi_connected_def http_POST_def read_millis_def Let_def)

lemma obtainTokens_cases:
  "obtainTokens e w =
     (if wifi_connected e (tick w) \<and> code (http_reply e (Suc (tick w))) = 200
      then (True, w\<lparr>jwtToken := as_String (deserializeJson (content (http_reply e (Suc (tick w))))) ''access'',
                    refreshTokenString := as_String (deserializeJson (content (http_reply e (Suc (tick w))))) ''refresh'',
                    tokenExpiryTime := millis e (Suc (Suc (tick w))) + 300000,
                    tick := Suc (Suc (Suc (tick w))),
                    sent := sent w @ [\<lparr>url = tokenEndpoint, authorization = None,
                       body = serializeJson [(''username'', JString basicAuthUsername),
                                             (''password'', JString basicAuthUsername)]\<rparr>]\<rparr>)
      else if wifi_connected e (tick w)
      then (False, w\<lparr>tick := Suc (Suc (tick w)),
                    sent := sent w @ [\<lparr>url = tokenEndpoint, authorization = None,
                       body = serializeJson [(''username'', JString basicAuthUsername),
                                             (''password'', JString basicAuthUsername)]\<rparr>]\<rparr>)
      else (False, w\<lparr>tick := Suc (tick w)\<rparr>))"
  by (simp add: obtainTokens_def WiFi_connected_def http_POST_def read_millis_def Let_def)

text \<open>
  C4 as stated fails: the result of parsing the reply is never looked at, so a renewal
  that is answered with status 200 and a body that is not JSON, or that lacks the
  refresh token, counts as done and overwrites the held tokens with the text the JSON
  library gives for a missing member.
\<close>

theorem renewal_accepts_garbled_body:
  "content garbled = NotJson ''<html>''
   \<and> jwtToken held = ''A0'' \<and> refreshTokenString held = ''R0'' \<and> tokenExpiryTime held = 7
   \<and> fst (refreshToken (online (\<lambda>n. garbled) 1000) held) = True
   \<and> jwtToken (snd (refreshToken (online (\<lambda>n. garbled) 1000) held)) = ''null''
   \<and> refreshTokenString (snd (refreshToken (online (\<lambda>n. garbled) 1000) held)) = ''null''
   \<and> tokenExpiryTime (snd (refreshToken (online (\<lambda>n. garbled) 1000) held)) = 301000
   \<and> fst (refreshToken (online (\<lambda>n. access_only) 1000) held) = True
   \<and> jwtToken (snd (refreshToken (online (\<lambda>n. access_only) 1000) held)) = ''A1''
   \<and> refreshTokenString (snd (refreshToken (online (\<lambda>n. access_only) 1000) held)) = ''null''"
  by (simp add: refreshToken_cases online_def garbled_def access_only_def as_String_def
      held_def boot_def)

text \<open>
  C4, as the code has it. A renewal succeeds exactly when the network is connected and
  the request is answered with status 200. It then replaces the access token, the
  refresh token and the expiry together, by the members \<^verbatim>\<open>access\<close> and
  \<^verbatim>\<open>refresh\<close> of the parsed reply, whatever the reply holds, and by the clock plus
  300000 ms. In every other case (another status, a transport failure, no network) it
  fails and leaves all three as they were.
\<close>

theorem renew_atomic:
  assumes "refreshToken e w = (renewed, w')"
  shows "renewed = (wifi_connected e (tick w) \<and> code (http_reply e (Suc (tick w))) = 200)
       \<and> (renewed \<longrightarrow>
            jwtToken w' = as_String (deserializeJson (content (http_reply e (Suc (tick w))))) ''access''
          \<and> refreshTokenString w' = as_String (deserializeJson (content (http_reply e (Suc (tick w))))) ''refresh''
          \<and> tokenExpiryTime w' = millis e (Suc (Suc (tick w))) + 300000)
       \<and> (\<not> renewed \<longrightarrow>
            jwtToken w' = jwtToken w \<and> refreshTokenString w' = refreshTokenString w
          \<and> tokenExpiryTime w' = tokenExpiryTime w)"
  using assms by (auto simp add: refreshToken_cases split: if_splits)

theorem renew_atomic_witness:
  "refreshToken (online (\<lambda>n. granted) 1000) held = (True, snd (refreshToken (online (\<lambda>n. granted) 1000) held))
   \<and> code (http_reply (online (\<lambda>n. granted) 1000) (Suc (tick held))) = 200
   \<and> jwtToken (snd (refreshToken (online (\<lambda>n. granted) 1000) held)) = ''A1''
   \<and> refreshTokenString (snd (refreshToken (online (\<lambda>n. granted) 1000) held)) = ''R1''
   \<and> tokenExpiryTime (snd (refreshToken (online (\<lambda>n. granted) 1000) held)) = 301000
   \<and> refreshToken (online (\<lambda>n. server_error) 1000) held = (False, snd (refreshToken (online (\<lambda>n. server_error) 1000) held))
   \<and> code (http_reply (online (\<lambda>n. server_error) 1000) (Suc (tick held))) = 500
   \<and> jwtToken (snd (refreshToken (online (\<lambda>n. server_error) 1000) held)) = ''A0''
   \<and> refreshTokenString (snd (refreshToken (online (\<lambda>n. server_error) 1000) held)) = ''R0''
   \<and> tokenExpiryTime (snd (refreshToken (online (\<lambda>n. server_error) 1000) held)) = 7"
proof -
  have a: "refreshToken (online (\<lambda>n. granted) 1000) held =
      (True, snd (refreshToken (online (\<lambda>n. granted) 1000) held))"
    by (simp add: refreshToken_cases online_def granted_def)
  have b: "refreshToken (online (\<lambda>n. server_error) 1000) held =
      (False, snd (refreshToken (online (\<lambda>n. server_error) 1000) held))"
    by (simp add: refreshToken_cases online_def server_error_def)
  have g: "as_String (deserializeJson (content (http_reply (online (\<lambda>n. granted) 1000) (Suc (tick held))))) ''access'' = ''A1''"
    "as_String (deserializeJson (content (http_reply (online (\<lambda>n. granted) 1000) (Suc (tick held))))) ''refresh'' = ''R1''"
    "millis (online (\<lambda>n. granted) 1000) (Suc (Suc (tick held))) + 300000 = 301000"
    by (simp_all add: online_def granted_def as_String_def)
  have c: "code (http_reply (online (\<lambda>n. granted) 1000) (Suc (tick held))) = 200"
    "code (http_reply (online (\<lambda>n. server_error) 1000) (Suc (tick held))) = 500"
    by (simp_all add: online_def granted_def server_error_def)
  have h: "jwtToken held = ''A0''" "refreshTokenString held = ''R0''" "tokenExpiryTime held = 7"
    by (simp_all add: held_def boot_def)
  from renew_atomic [OF a] renew_atomic [OF b] a b c g h show ?thesis by simp
qed

text \<open>
  C6, as the code has it. An acquisition succeeds exactly when the network is connected
  and the request is answered with status 200. It then takes the two tokens from the
  members \<^verbatim>\<open>access\<close> and \<^verbatim>\<open>refresh\<close> of the parsed reply, whatever the reply
  holds, and sets the expiry to the clock plus 300000 ms. In every other case (another
  status, a transport failure, no network) it fails and leaves tokens and expiry as
  they were.
\<close>

theorem acquisition_outcome:
  assumes "obtainTokens e w = (ok, w')"
  shows "ok = (wifi_connected e (tick w) \<and> code (http_reply e (Suc (tick w))) = 200)
       \<and> (ok \<longrightarrow>
            jwtToken w' = as_String (deserializeJson (content (http_reply e (Suc (tick w))))) ''access''
          \<and> refreshTokenString w' = as_String (deserializeJson (content (http_reply e (Suc (tick w))))) ''refresh''
          \<and> tokenExpiryTime w' = millis e (Suc (Suc (tick w))) + 300000)
       \<and> (\<not> ok \<longrightarrow>
            jwtToken w' = jwtToken w \<and> refreshTokenString w' = refreshTokenString w
          \<and> tokenExpiryTime w' = tokenExpiryTime w)"
  using assms by (auto simp add: obtainTokens_cases split: if_splits)

theorem acquisition_outcome_witness:
  "obtainTokens (online (\<lambda>n. granted) 1000) boot = (True, snd (obtainTokens (online (\<lambda>n. granted) 1000) boot))
   \<and> jwtToken (snd (obtainTokens (online (\<lambda>n. granted) 1000) boot)) = ''A1''
   \<and> refreshTokenString (snd (obtainTokens (online (\<lambda>n. granted) 1000) boot)) = ''R1''
   \<and> tokenExpiryTime (snd (obtainTokens (online (\<lambda>n. granted) 1000) boot)) = 301000
   \<and> obtainTokens (online (\<lambda>n. server_error) 1000) held = (False, snd (obtainTokens (online (\<lambda>n. server_error) 1000) held))
   \<and> jwtToken (snd (obtainTokens (online (\<lambda>n. server_error) 1000) held)) = ''A0''
   \<and> refreshTokenString (snd (obtainTokens (online (\<lambda>n. server_error) 1000) held)) = ''R0''
   \<and> tokenExpiryTime (snd (obtainTokens (online (\<lambda>n. server_error) 1000) held)) = 7"
proof -
  have a: "obtainTokens (online (\<lambda>n. granted) 1000) boot =
      (True, snd (obtainTokens (online (\<lambda>n. granted) 1000) boot))"
    by (simp add: obtainTokens_cases online_def granted_def)
  have b: "obtainTokens (online (\<lambda>n. server_error) 1000) held =
      (False, snd (obtainTokens (online (\<lambda>n. server_error) 1000) held))"
    by (simp add: obtainTokens_cases online_def server_error_def)
  have g: "as_String (deserializeJson (content (http_reply (online (\<lambda>n. granted) 1000) (Suc (tick boot))))) ''access'' = ''A1''"
    "as_String (deserializeJson (content (http_reply (online (\<lambda>n. granted) 1000) (Suc (tick boot))))) ''refresh'' = ''R1''"
    "millis (online (\<lambda>n. granted) 1000) (Suc (Suc (tick boot))) + 300000 = 301000"
    by (simp_all add: online_def granted_def as_String_def)
  have h: "jwtToken held = ''A0''" "refreshTokenString held = ''R0''" "tokenExpiryTime held = 7"
    by (simp_all add: held_def boot_def)
  from acquisition_outcome [OF a] acquisition_outcome [OF b] a b g h show ?thesis by simp
qed

text \<open>
  C6 as stated fails: the result of parsing the reply is never looked at, so a reply
  with status 200 whose body is not JSON is a successful acquisition; the tokens become
  the text the JSON library gives for a missing member.
\<close>

theorem acquisition_accepts_garbled_body:
  "content garbled = NotJson ''<html>''
   \<and> fst (obtainTokens (online (\<lambda>n. garbled) 1000) boot) = True
   \<and> tokenExpiryTime (snd (obtainTokens (online (\<lambda>n. garbled) 1000) boot)) = 301000
   \<and> jwtToken (snd (obtainTokens (online (\<lambda>n. garbled) 1000) boot)) = ''null''"
  by (simp add: obtainTokens_cases online_def garbled_def as_String_def boot_def)

text \<open>
  C3 as stated fails: the test of the loop is \<^verbatim>\<open>millis() > tokenExpiryTime\<close>. At
  the instant of expiry (clock 300000 for a credential acquired at clock 0) no renewal
  is due, and with no credential held (expiry 0 after boot) none is due at clock 0.
\<close>

theorem renewal_test_is_strict:
  "fst (obtainTokens (online (\<lambda>n. granted) 0) boot) = True
   \<and> tokenExpiryTime (snd (obtainTokens (online (\<lambda>n. granted) 0) boot)) = 300000
   \<and> (300000 :: 32 word) \<ge> tokenExpiryTime (snd (obtainTokens (online (\<lambda>n. granted) 0) boot))
   \<and> needs_renewal 300000 (snd (obtainTokens (online (\<lambda>n. granted) 0) boot)) = False
   \<and> needs_renewal 0 boot = False"
  by (simp add: obtainTokens_cases online_def granted_def needs_renewal_def boot_def)

lemma unat_expiry_no_wrap:
  "unat (t :: 32 word) + 300000 < 4294967296 \<Longrightarrow> unat (t + 300000) = unat t + 300000"
  by (simp add: unat_word_ariths)

lemma unat_expiry_wrap:
  "4294967296 \<le> unat (t :: 32 word) + 300000 \<Longrightarrow> unat (t + 300000) + 4294967296 = unat t + 300000"
proof -
  assume a: "4294967296 \<le> unat t + 300000"
  have b: "unat t < 4294967296" using unsigned_less [of t, where 'a = nat] by simp
  have "unat (t + 300000) = (unat t + 300000) mod 4294967296"
    by (simp add: unat_word_ariths)
  also have "\<dots> = unat t + 300000 - 4294967296"
    using a b by (simp add: mod_if le_mod_geq)
  finally show ?thesis using a by simp
qed

lemma obtainTokens_expiry:
  "obtainTokens e w = (True, w') \<Longrightarrow> tokenExpiryTime w' = millis e (Suc (Suc (tick w))) + 300000"
  by (auto simp add: obtainTokens_cases split: if_splits)

lemma refreshToken_expiry:
  "refreshToken e w = (True, w') \<Longrightarrow> tokenExpiryTime w' = millis e (Suc (Suc (tick w))) + 300000"
  by (auto simp add: refreshToken_cases split: if_splits)

text \<open>
  C3, as the code has it. After a successful acquisition at a clock value that is more
  than 300000 ms before the clock wraps, a renewal is due exactly at the clock values
  greater than the acquisition time plus 300000, so none is due at the acquisition time
  itself. With no credential acquired since boot the expiry is 0 and a renewal is due at
  every clock value but 0.
\<close>

theorem renewal_after_acquisition:
  assumes "obtainTokens e w = (True, w')"
    and "unat (millis e (Suc (Suc (tick w)))) + 300000 < 4294967296"
  shows "(\<forall>now. needs_renewal now w' = (unat (millis e (Suc (Suc (tick w)))) + 300000 < unat now))
       \<and> needs_renewal (millis e (Suc (Suc (tick w)))) w' = False
       \<and> (\<forall>now. needs_renewal now boot = (0 < unat now))"
proof -
  let ?t = "millis e (Suc (Suc (tick w)))"
  have x: "unat (tokenExpiryTime w') = unat ?t + 300000"
    using obtainTokens_expiry [OF assms(1)] unat_expiry_no_wrap [OF assms(2)] by simp
  have a: "needs_renewal now w' = (unat ?t + 300000 < unat now)" for now
    using x by (simp add: needs_renewal_def word_less_nat_alt)
  have b: "needs_renewal now boot = (0 < unat now)" for now
    by (simp add: needs_renewal_def boot_def word_less_nat_alt)
  from a [of ?t] a b show ?thesis by simp
qed

theorem renewal_after_acquisition_witness:
  "obtainTokens (online (\<lambda>n. granted) 1000) boot = (True, snd (obtainTokens (online (\<lambda>n. granted) 1000) boot))
   \<and> unat (1000 :: 32 word) + 300000 < 4294967296
   \<and> needs_renewal 1000 (snd (obtainTokens (online (\<lambda>n. granted) 1000) boot)) = False
   \<and> needs_renewal 301000 (snd (obtainTokens (online (\<lambda>n. granted) 1000) boot)) = False
   \<and> needs_renewal 301001 (snd (obtainTokens (online (\<lambda>n. granted) 1000) boot)) = True
   \<and> needs_renewal 5 boot = True"
proof -
  let ?e = "online (\<lambda>n. granted) 1000"
  have a: "obtainTokens ?e boot = (True, snd (obtainTokens ?e boot))"
    by (simp add: obtainTokens_cases online_def granted_def)
  have m: "millis ?e (Suc (Suc (tick boot))) = 1000"
    by (simp add: online_def)
  have b: "unat (millis ?e (Suc (Suc (tick boot)))) + 300000 < 4294967296"
    by (simp add: m)
  from renewal_after_acquisition [OF a b] a show ?thesis
    by (simp add: m)
qed

text \<open>
  C10. The expiry is the clock plus 300000 in 32-bit arithmetic. For every clock value
  within 300000 ms of the wraparound, a credential acquired or renewed then has an expiry
  that wrapped (it is 2^32 less than the sum), lies before the acquisition time, and
  makes the loop's test hold at every clock value from the acquisition time on to the
  end of the clock period.
\<close>

theorem expiry_wraps:
  assumes "obtainTokens e w = (True, w') \<or> refreshToken e w = (True, w')"
    and "4294967296 \<le> unat (millis e (Suc (Suc (tick w)))) + 300000"
  shows "unat (tokenExpiryTime w') + 4294967296 = unat (millis e (Suc (Suc (tick w)))) + 300000
       \<and> tokenExpiryTime w' < millis e (Suc (Suc (tick w)))
       \<and> (\<forall>now. millis e (Suc (Suc (tick w))) \<le> now \<longrightarrow> needs_renewal now w')"
proof -
  let ?t = "millis e (Suc (Suc (tick w)))"
  have "tokenExpiryTime w' = ?t + 300000"
    using assms(1) obtainTokens_expiry refreshToken_expiry by blast
  then have x: "unat (tokenExpiryTime w') + 4294967296 = unat ?t + 300000"
    using unat_expiry_wrap [OF assms(2)] by simp
  then have y: "tokenExpiryTime w' < ?t"
    by (simp add: word_less_nat_alt)
  have "needs_renewal now w'" if "?t \<le> now" for now
    using y that by (simp add: needs_renewal_def)
  with x y show ?thesis by simp
qed

theorem expiry_wraps_witness:
  "obtainTokens (online (\<lambda>n. granted) 4294967000) boot =
     (True, snd (obtainTokens (online (\<lambda>n. granted) 4294967000) boot))
   \<and> 4294967296 \<le> unat (4294967000 :: 32 word) + 300000
   \<and> tokenExpiryTime (snd (obtainTokens (online (\<lambda>n. granted) 4294967000) boot)) = 299704
   \<and> needs_renewal 4294967000 (snd (obtainTokens (online (\<lambda>n. granted) 4294967000) boot))
   \<and> needs_renewal 4294967295 (snd (obtainTokens (online (\<lambda>n. granted) 4294967000) boot))"
proof -
  let ?e = "online (\<lambda>n. granted) 4294967000"
  have a: "obtainTokens ?e boot = (True, snd (obtainTokens ?e boot))"
    by (simp add: obtainTokens_cases online_def granted_def)
  have m: "millis ?e (Suc (Suc (tick boot))) = 4294967000"
    by (simp add: online_def)
  have b: "4294967296 \<le> unat (millis ?e (Suc (Suc (tick boot)))) + 300000"
    by (simp add: m)
  have c: "tokenExpiryTime (snd (obtainTokens ?e boot)) = 299704"
    by (simp add: obtainTokens_cases online_def granted_def)
  from expiry_wraps [OF disjI1 [OF a] b] a c show ?thesis
    by (simp add: m)
qed

section \<open>Properties of the upload\<close>

lemma sendDataToAPI_cases:
  "sendDataToAPI number e h t f hic hif up ts w =
     (if \<not> wifi_connected e (tick w) then w\<lparr>tick := Suc (tick w)\<rparr>
      else
        let p = upload_payload number e h t hic up ts;
            w2 = w\<lparr>tick := Suc (Suc (tick w)), sent := sent w @ [upload_request (jwtToken w) p]\<rparr>;
            w3 = snd (refreshToken e w2)
        in if code (http_reply e (Suc (tick w))) \<noteq> 401 then w2
           else if fst (refreshToken e w2)
           then w3\<lparr>tick := Suc (tick w3), sent := sent w3 @ [upload_request (jwtToken w3) p]\<rparr>
           else w3)"
  by (simp add: sendDataToAPI_def WiFi_connected_def http_POST_def upload_request_def Let_def
      split: prod.splits)

text \<open>
  C5. The acquisition request carries the configured user name in both members: the
  line for \<^verbatim>\<open>password\<close> assigns \<^verbatim>\<open>basicAuthUsername\<close>, whereas the configured
  password is \<^verbatim>\<open>basicAuthPassword\<close>.
\<close>

theorem acquisition_sends_username_as_password:
  \<open>sent (snd (obtainTokens (online (\<lambda>n. granted) 1000) boot)) =
     [\<lparr>url = tokenEndpoint, authorization = None,
       body = ''{"username":"bekhzad","password":"bekhzad"}''\<rparr>]
   \<and> basicAuthUsername = ''bekhzad'' \<and> basicAuthPassword = ''admin''\<close>
  by (simp add: obtainTokens_cases online_def granted_def boot_def serializeJson_def
      json_member_def quoted_def escape_char_def basicAuthUsername_def basicAuthPassword_def)

lemma refreshToken_sent:
  "sent (snd (refreshToken e w)) = sent w @
     (if wifi_connected e (tick w)
      then [\<lparr>url = refreshEndpoint, authorization = None,
              body = serializeJson [(''refresh'', JString (refreshTokenString w))]\<rparr>]
      else [])"
  by (simp add: refreshToken_cases)

lemma endpoints_differ: "refreshEndpoint \<noteq> apiEndpoint"
  by (simp add: refreshEndpoint_def apiEndpoint_def)

lemma sendDataToAPI_sent:
  "sent (sendDataToAPI number e h t f hic hif up ts w) =
     sent w @
     (if \<not> wifi_connected e (tick w) then []
      else
        let p = upload_payload number e h t hic up ts;
            w2 = w\<lparr>tick := Suc (Suc (tick w)), sent := sent w @ [upload_request (jwtToken w) p]\<rparr>
        in upload_request (jwtToken w) p #
           (if code (http_reply e (Suc (tick w))) \<noteq> 401 then []
            else (if wifi_connected e (tick w2)
                  then [\<lparr>url = refreshEndpoint, authorization = None,
                          body = serializeJson [(''refresh'', JString (refreshTokenString w2))]\<rparr>]
                  else [])
                 @ (if fst (refreshToken e w2)
                    then [upload_request (jwtToken (snd (refreshToken e w2))) p] else [])))"
  by (simp add: sendDataToAPI_cases refreshToken_sent Let_def)

lemma uploads_of_sendDataToAPI:
  "uploads_since w (sendDataToAPI number e h t f hic hif up ts w) =
     (if \<not> wifi_connected e (tick w) then []
      else
        let p = upload_payload number e h t hic up ts;
            w2 = w\<lparr>tick := Suc (Suc (tick w)), sent := sent w @ [upload_request (jwtToken w) p]\<rparr>
        in upload_request (jwtToken w) p #
           (if code (http_reply e (Suc (tick w))) = 401 \<and> fst (refreshToken e w2)
            then [upload_request (jwtToken (snd (refreshToken e w2))) p] else []))"
  by (simp add: uploads_since_def requests_since_def sendDataToAPI_sent Let_def
      upload_request_def endpoints_differ)

lemma loop_cases:
  "loop isnan computeHeatIndex number e h t f ts w =
     (if isnan h \<or> isnan t \<or> isnan f then w
      else
        let w2 = sendDataToAPI number e h t f (computeHeatIndex t h False)
                   (computeHeatIndex f h True) ((millis e (tick w) - startTime) div 1000) ts
                   (w\<lparr>tick := Suc (tick w)\<rparr>);
            w3 = w2\<lparr>tick := Suc (tick w2)\<rparr>
        in if needs_renewal (millis e (tick w2)) w3 then snd (refreshToken e w3) else w3)"
  by (simp add: loop_def read_millis_def Let_def)

lemma uploads_since_tick:
  "uploads_since (w\<lparr>tick := n\<rparr>) w' = uploads_since w w'"
  by (simp add: uploads_since_def requests_since_def)

lemma uploads_since_refresh:
  "sent w2 = sent w @ rs \<Longrightarrow>
     uploads_since w (snd (refreshToken e (w2\<lparr>tick := n\<rparr>))) = uploads_since w w2
   \<and> uploads_since w (w2\<lparr>tick := n\<rparr>) = uploads_since w w2"
  by (simp add: uploads_since_def requests_since_def refreshToken_sent endpoints_differ)

lemma uploads_of_loop:
  "uploads_since w (loop isnan computeHeatIndex number e h t f ts w) =
     (if isnan h \<or> isnan t \<or> isnan f then []
      else uploads_since (w\<lparr>tick := Suc (tick w)\<rparr>)
             (sendDataToAPI number e h t f (computeHeatIndex t h False)
                (computeHeatIndex f h True) ((millis e (tick w) - startTime) div 1000) ts
                (w\<lparr>tick := Suc (tick w)\<rparr>)))"
proof (cases "isnan h \<or> isnan t \<or> isnan f")
  case True
  then show ?thesis by (simp add: loop_cases uploads_since_def requests_since_def)
next
  case False
  let ?w1 = "w\<lparr>tick := Suc (tick w)\<rparr>"
  let ?w2 = "sendDataToAPI number e h t f (computeHeatIndex t h False)
                (computeHeatIndex f h True) ((millis e (tick w) - startTime) div 1000) ts ?w1"
  obtain rs where rs: "sent ?w2 = sent w @ rs"
    using sendDataToAPI_sent [of number e h t f "computeHeatIndex t h False"
        "computeHeatIndex f h True" "(millis e (tick w) - startTime) div 1000" ts ?w1]
    by simp
  from uploads_since_refresh [OF rs] False show ?thesis
    by (simp add: loop_cases Let_def uploads_since_tick)
qed

text \<open>
  C2. When the first upload of a reading is answered with 401 and the renewal succeeds,
  the uploads sent are exactly two: the first, and one more with the same payload and
  the renewed token. When the renewal fails, the first upload is the only one. In every
  case a call sends at most two uploads, each with the payload of the reading it was
  given; and one pass of the loop, from any state and after any history, sends at most
  two uploads, each with the payload of the reading of this pass, so that no earlier
  reading is sent again.
\<close>

theorem upload_retry_bound:
  "(let p = upload_payload number e h t hic up ts;
        w2 = w\<lparr>tick := Suc (Suc (tick w)), sent := sent w @ [upload_request (jwtToken w) p]\<rparr>;
        w' = sendDataToAPI number e h t f hic hif up ts w
    in (wifi_connected e (tick w) \<and> code (http_reply e (Suc (tick w))) = 401
          \<and> fst (refreshToken e w2) \<longrightarrow>
        uploads_since w w' =
          [upload_request (jwtToken w) p, upload_request (jwtToken (snd (refreshToken e w2))) p])
     \<and> (wifi_connected e (tick w) \<and> code (http_reply e (Suc (tick w))) = 401
          \<and> \<not> fst (refreshToken e w2) \<longrightarrow>
        uploads_since w w' = [upload_request (jwtToken w) p])
     \<and> length (uploads_since w w') \<le> 2
     \<and> (\<forall>r \<in> set (uploads_since w w'). body r = p))
   \<and> (let p = upload_payload number e h t (computeHeatIndex t h False)
                ((millis e (tick w) - startTime) div 1000) ts;
            w' = loop isnan computeHeatIndex number e h t f ts w
        in length (uploads_since w w') \<le> 2
         \<and> (\<forall>r \<in> set (uploads_since w w'). body r = p))"
proof -
  have a: "(let p = upload_payload number e h t hic up ts;
        w2 = w\<lparr>tick := Suc (Suc (tick w)), sent := sent w @ [upload_request (jwtToken w) p]\<rparr>;
        w' = sendDataToAPI number e h t f hic hif up ts w
    in (wifi_connected e (tick w) \<and> code (http_reply e (Suc (tick w))) = 401
          \<and> fst (refreshToken e w2) \<longrightarrow>
        uploads_since w w' =
          [upload_request (jwtToken w) p, upload_request (jwtToken (snd (refreshToken e w2))) p])
     \<and> (wifi_connected e (tick w) \<and> code (http_reply e (Suc (tick w))) = 401
          \<and> \<not> fst (refreshToken e w2) \<longrightarrow>
        uploads_since w w' = [upload_request (jwtToken w) p])
     \<and> length (uploads_since w w') \<le> 2
     \<and> (\<forall>r \<in> set (uploads_since w w'). body r = p))"
    by (simp add: uploads_of_sendDataToAPI Let_def upload_request_def)
  have b: "(let p = upload_payload number e h t (computeHeatIndex t h False)
                ((millis e (tick w) - startTime) div 1000) ts;
            w' = loop isnan computeHeatIndex number e h t f ts w
        in length (uploads_since w w') \<le> 2
         \<and> (\<forall>r \<in> set (uploads_since w w'). body r = p))"
    by (simp add: uploads_of_loop uploads_of_sendDataToAPI Let_def upload_request_def)
  from a b show ?thesis by blast
qed

theorem upload_retry_bound_witness:
  "uploads_since held
     (sendDataToAPI (\<lambda>x. x) expiring ''45.2'' ''22.1'' ''71.8'' ''22.0'' ''71.6'' 3725
        ''2024-02-07 10:15:25'' held)
     = [upload_request ''A0'' sample_payload, upload_request ''A1'' sample_payload]
   \<and> uploads_since held
     (sendDataToAPI (\<lambda>x. x) rejecting ''45.2'' ''22.1'' ''71.8'' ''22.0'' ''71.6'' 3725
        ''2024-02-07 10:15:25'' held)
     = [upload_request ''A0'' sample_payload]"
proof -
  let ?p = "upload_payload (\<lambda>x. x) expiring ''45.2'' ''22.1'' ''22.0'' 3725 ''2024-02-07 10:15:25''"
  let ?w2 = "held\<lparr>tick := Suc (Suc (tick held)),
                   sent := sent held @ [upload_request (jwtToken held) ?p]\<rparr>"
  have same: "upload_payload (\<lambda>x. x) rejecting ''45.2'' ''22.1'' ''22.0'' 3725 ''2024-02-07 10:15:25'' = ?p"
    by (simp add: upload_payload_def generateSensorID_def rejecting_def expiring_def online_def)
  have h: "jwtToken held = ''A0''" "tick held = 0"
    by (simp_all add: held_def boot_def)
  have e1: "wifi_connected expiring (tick held)" "code (http_reply expiring (Suc (tick held))) = 401"
    by (simp_all add: expiring_def online_def unauthorized_def h)
  have e2: "fst (refreshToken expiring ?w2)" "jwtToken (snd (refreshToken expiring ?w2)) = ''A1''"
    by (simp_all add: refreshToken_cases expiring_def online_def granted_def as_String_def h)
  have r1: "wifi_connected rejecting (tick held)" "code (http_reply rejecting (Suc (tick held))) = 401"
    by (simp_all add: rejecting_def online_def unauthorized_def h)
  have r2: "\<not> fst (refreshToken rejecting ?w2)"
    by (simp add: refreshToken_cases rejecting_def online_def unauthorized_def h)
  have a: "uploads_since held
     (sendDataToAPI (\<lambda>x. x) expiring ''45.2'' ''22.1'' ''71.8'' ''22.0'' ''71.6'' 3725
        ''2024-02-07 10:15:25'' held)
     = [upload_request ''A0'' ?p, upload_request ''A1'' ?p]"
    using upload_retry_bound [where number = "\<lambda>x. x" and e = expiring and h = "''45.2''"
        and t = "''22.1''" and f = "''71.8''" and hic = "''22.0''" and hif = "''71.6''"
        and up = 3725 and ts = "''2024-02-07 10:15:25''" and w = held] e1 e2
    by (simp add: Let_def h)
  have b: "uploads_since held
     (sendDataToAPI (\<lambda>x. x) rejecting ''45.2'' ''22.1'' ''71.8'' ''22.0'' ''71.6'' 3725
        ''2024-02-07 10:15:25'' held)
     = [upload_request ''A0'' ?p]"
    using upload_retry_bound [where number = "\<lambda>x. x" and e = rejecting and h = "''45.2''"
        and t = "''22.1''" and f = "''71.8''" and hic = "''22.0''" and hif = "''71.6''"
        and up = 3725 and ts = "''2024-02-07 10:15:25''" and w = held] r1 r2
    by (simp add: Let_def h same)
  from a b show ?thesis by (simp add: sample_payload_def)
qed

lemma upload_payload_text:
  \<open>upload_payload number e humidity tempC heatIndexC uptime timestamp =
     ''{"sensor_id":'' @ quoted (macAddress e)
     @ '',"humidity":'' @ number humidity
     @ '',"temperature":'' @ number tempC
     @ '',"heat_index":'' @ number heatIndexC
     @ '',"uptime":'' @ String_of_nat (unat uptime)
     @ '',"datetime":'' @ quoted timestamp @ ''}''\<close>
  by (simp add: upload_payload_def serializeJson_def json_member_def generateSensorID_def
      quoted_def escape_char_def)

lemma String_of_3725: "String_of_nat 3725 = ''3725''"
  by (simp add: String_of_nat.simps digit_def)

lemma quoted_timestamp:
  \<open>quoted ''2024-02-07 10:15:25'' = ''"2024-02-07 10:15:25"''\<close>
  by (simp add: quoted_def escape_char_def)

text \<open>
  C8. For a reading whose humidity and temperature the JSON library prints as
  \<^verbatim>\<open>45.2\<close> and \<^verbatim>\<open>22.1\<close>, with an uptime of 3725 seconds and the timestamp
  \<^verbatim>\<open>2024-02-07 10:15:25\<close>, the payload is the object with the members
  \<^verbatim>\<open>sensor_id\<close>, \<^verbatim>\<open>humidity\<close>, \<^verbatim>\<open>temperature\<close>, \<^verbatim>\<open>heat_index\<close>,
  \<^verbatim>\<open>uptime\<close>, \<^verbatim>\<open>datetime\<close> in this order; it contains each of the four
  members of the scenario; it is the body of the upload that is sent; and
  \<^verbatim>\<open>formatUptime\<close> of 3725 seconds is \<^verbatim>\<open>0d 1h 2m 5s\<close>.
\<close>

theorem sample_payload_and_uptime:
  assumes "number humidity = ''45.2''" and "number tempC = ''22.1''"
  shows \<open>upload_payload number e humidity tempC heatIndexC 3725 ''2024-02-07 10:15:25'' =
           ''{"sensor_id":'' @ quoted (macAddress e)
           @ '',"humidity":45.2,"temperature":22.1,"heat_index":'' @ number heatIndexC
           @ '',"uptime":3725,"datetime":"2024-02-07 10:15:25"}''
         \<and> sublist ''"humidity":45.2''
              (upload_payload number e humidity tempC heatIndexC 3725 ''2024-02-07 10:15:25'')
         \<and> sublist ''"temperature":22.1''
              (upload_payload number e humidity tempC heatIndexC 3725 ''2024-02-07 10:15:25'')
         \<and> sublist ''"uptime":3725''
              (upload_payload number e humidity tempC heatIndexC 3725 ''2024-02-07 10:15:25'')
         \<and> sublist ''"datetime":"2024-02-07 10:15:25"''
              (upload_payload number e humidity tempC heatIndexC 3725 ''2024-02-07 10:15:25'')
         \<and> (wifi_connected e (tick w) \<longrightarrow>
              take 1 (requests_since w
                (sendDataToAPI number e humidity tempC tempF heatIndexC heatIndexF 3725
                   ''2024-02-07 10:15:25'' w))
              = [upload_request (jwtToken w)
                  (upload_payload number e humidity tempC heatIndexC 3725 ''2024-02-07 10:15:25'')])
         \<and> formatUptime 3725 = ''0d 1h 2m 5s''\<close>
proof -
  let ?p = "upload_payload number e humidity tempC heatIndexC 3725 ''2024-02-07 10:15:25''"
  have eq: \<open>?p = ''{"sensor_id":'' @ quoted (macAddress e)
           @ '',"humidity":45.2,"temperature":22.1,"heat_index":'' @ number heatIndexC
           @ '',"uptime":3725,"datetime":"2024-02-07 10:15:25"}''\<close>
    by (simp add: upload_payload_text assms String_of_3725 quoted_timestamp)
  have s1: \<open>sublist ''"humidity":45.2'' ?p\<close>
    unfolding sublist_def
    by (rule exI [of _ \<open>''{"sensor_id":'' @ quoted (macAddress e) @ '',''\<close>],
        rule exI [of _ \<open>'',"temperature":22.1,"heat_index":'' @ number heatIndexC
           @ '',"uptime":3725,"datetime":"2024-02-07 10:15:25"}''\<close>])
       (simp add: eq)
  have s2: \<open>sublist ''"temperature":22.1'' ?p\<close>
    unfolding sublist_def
    by (rule exI [of _ \<open>''{"sensor_id":'' @ quoted (macAddress e) @ '',"humidity":45.2,''\<close>],
        rule exI [of _ \<open>'',"heat_index":'' @ number heatIndexC
           @ '',"uptime":3725,"datetime":"2024-02-07 10:15:25"}''\<close>])
       (simp add: eq)
  have s3: \<open>sublist ''"uptime":3725'' ?p\<close>
    unfolding sublist_def
    by (rule exI [of _ \<open>''{"sensor_id":'' @ quoted (macAddress e)
           @ '',"humidity":45.2,"temperature":22.1,"heat_index":'' @ number heatIndexC @ '',''\<close>],
        rule exI [of _ \<open>'',"datetime":"2024-02-07 10:15:25"}''\<close>])
       (simp add: eq)
  have s4: \<open>sublist ''"datetime":"2024-02-07 10:15:25"'' ?p\<close>
    unfolding sublist_def
    by (rule exI [of _ \<open>''{"sensor_id":'' @ quoted (macAddress e)
           @ '',"humidity":45.2,"temperature":22.1,"heat_index":'' @ number heatIndexC
           @ '',"uptime":3725,''\<close>],
        rule exI [of _ \<open>''}''\<close>])
       (simp add: eq)
  have snd: "wifi_connected e (tick w) \<longrightarrow>
      take 1 (requests_since w
        (sendDataToAPI number e humidity tempC tempF heatIndexC heatIndexF 3725
           ''2024-02-07 10:15:25'' w)) = [upload_request (jwtToken w) ?p]"
    by (simp add: requests_since_def sendDataToAPI_sent Let_def)
  have up: "formatUptime 3725 = ''0d 1h 2m 5s''"
    by (simp add: formatUptime_def String_of_nat.simps digit_def)
  from eq s1 s2 s3 s4 snd up show ?thesis by blast
qed

theorem sample_payload_and_uptime_witness:
  \<open>sample_payload =
     ''{"sensor_id":"24:6F:28:AA:BB:CC","humidity":45.2,"temperature":22.1,"heat_index":22.0,"uptime":3725,"datetime":"2024-02-07 10:15:25"}''
   \<and> sublist ''"humidity":45.2'' sample_payload
   \<and> sublist ''"temperature":22.1'' sample_payload
   \<and> sublist ''"uptime":3725'' sample_payload
   \<and> sublist ''"datetime":"2024-02-07 10:15:25"'' sample_payload
   \<and> requests_since held
        (sendDataToAPI (\<lambda>x. x) (online (\<lambda>n. granted) 1000) ''45.2'' ''22.1'' ''71.8'' ''22.0''
           ''71.6'' 3725 ''2024-02-07 10:15:25'' held)
      = [upload_request ''A0'' sample_payload]\<close>
proof -
  let ?e = "online (\<lambda>n. granted) 1000"
  have same: "upload_payload (\<lambda>x. x) ?e ''45.2'' ''22.1'' ''22.0'' 3725 ''2024-02-07 10:15:25''
      = sample_payload"
    by (simp add: sample_payload_def upload_payload_def generateSensorID_def expiring_def online_def)
  have q: \<open>quoted (macAddress ?e) = ''"24:6F:28:AA:BB:CC"''\<close>
    by (simp add: online_def quoted_def escape_char_def)
  have c: "wifi_connected ?e (tick held)" by (simp add: online_def)
  have one: "length (requests_since held
        (sendDataToAPI (\<lambda>x. x) ?e ''45.2'' ''22.1'' ''71.8'' ''22.0''
           ''71.6'' 3725 ''2024-02-07 10:15:25'' held)) = 1"
    by (simp add: requests_since_def sendDataToAPI_sent Let_def online_def granted_def held_def boot_def)
  have h: "jwtToken held = ''A0''" by (simp add: held_def boot_def)
  from sample_payload_and_uptime [where number = "\<lambda>x. x" and humidity = "''45.2''"
      and tempC = "''22.1''" and e = ?e and heatIndexC = "''22.0''" and w = held
      and tempF = "''71.8''" and heatIndexF = "''71.6''", OF refl refl]
  show ?thesis using c one by (simp add: same q h)
qed

text \<open>
  C7 as stated fails: after an acquisition that was answered with status 500 the tokens
  are still empty, and the next upload is sent all the same, with the header
  \<^verbatim>\<open>Authorization: Bearer\<close> followed by the empty token.
\<close>

theorem upload_without_credential_is_sent:
  "fst (obtainTokens failing boot) = False
   \<and> jwtToken (snd (obtainTokens failing boot)) = []
   \<and> refreshTokenString (snd (obtainTokens failing boot)) = []
   \<and> tokenExpiryTime (snd (obtainTokens failing boot)) = 0
   \<and> requests_since (snd (obtainTokens failing boot))
        (sendDataToAPI (\<lambda>x. x) failing ''45.2'' ''22.1'' ''71.8'' ''22.0'' ''71.6'' 3725
           ''2024-02-07 10:15:25'' (snd (obtainTokens failing boot)))
      = [\<lparr>url = apiEndpoint, authorization = Some ''Bearer '', body = sample_payload\<rparr>]"
  by (simp add: obtainTokens_cases failing_def online_def server_error_def boot_def
      requests_since_def sendDataToAPI_sent Let_def upload_request_def sample_payload_def
      upload_payload_def generateSensorID_def expiring_def)

text \<open>
  C7, as the code has it. After an acquisition that was answered with status 500 the
  acquisition has failed and tokens and expiry are as before. The next upload is not
  held back for want of a credential: if the network is connected, its first request is
  the upload with the stored token; only a network that is not connected keeps it from
  sending anything.
\<close>

theorem upload_after_failed_acquisition:
  assumes "wifi_connected e (tick w)" and "code (http_reply e (Suc (tick w))) = 500"
  shows "(let w1 = snd (obtainTokens e w);
              w' = sendDataToAPI number e h t f hic hif up ts w1
          in fst (obtainTokens e w) = False
           \<and> jwtToken w1 = jwtToken w \<and> refreshTokenString w1 = refreshTokenString w
           \<and> tokenExpiryTime w1 = tokenExpiryTime w
           \<and> (wifi_connected e (tick w1) \<longrightarrow>
                take 1 (requests_since w1 w') =
                  [upload_request (jwtToken w) (upload_payload number e h t hic up ts)])
           \<and> (\<not> wifi_connected e (tick w1) \<longrightarrow> requests_since w1 w' = []))"
  using assms
  by (simp add: obtainTokens_cases requests_since_def sendDataToAPI_sent Let_def)

theorem upload_after_failed_acquisition_witness:
  "wifi_connected failing (tick boot) \<and> code (http_reply failing (Suc (tick boot))) = 500
   \<and> fst (obtainTokens failing boot) = False
   \<and> jwtToken (snd (obtainTokens failing boot)) = []
   \<and> wifi_connected failing (tick (snd (obtainTokens failing boot)))
   \<and> take 1 (requests_since (snd (obtainTokens failing boot))
        (sendDataToAPI (\<lambda>x. x) failing ''45.2'' ''22.1'' ''71.8'' ''22.0'' ''71.6'' 3725
           ''2024-02-07 10:15:25'' (snd (obtainTokens failing boot))))
      = [upload_request [] sample_payload]"
proof -
  have a: "wifi_connected failing (tick boot)"
    by (simp add: failing_def online_def)
  have b: "code (http_reply failing (Suc (tick boot))) = 500"
    by (simp add: failing_def online_def server_error_def)
  have c: "wifi_connected failing (tick (snd (obtainTokens failing boot)))"
    by (simp add: failing_def online_def)
  have p: "upload_payload (\<lambda>x. x) failing ''45.2'' ''22.1'' ''22.0'' 3725 ''2024-02-07 10:15:25''
      = sample_payload"
    by (simp add: sample_payload_def upload_payload_def generateSensorID_def expiring_def
        failing_def online_def)
  have j: "jwtToken boot = []" by (simp add: boot_def)
  from upload_after_failed_acquisition [OF a b, where number = "\<lambda>x. x" and h = "''45.2''"
      and t = "''22.1''" and f = "''71.8''" and hic = "''22.0''" and hif = "''71.6''"
      and up = 3725 and ts = "''2024-02-07 10:15:25''"] a b c
  show ?thesis by (simp add: Let_def p j)
qed

end
